theory Spec2Isabelle
  imports Main "HOL-Library.Word" "HOL-Library.AList"
begin

section \<open>The xDS resolver of xds/internal/resolver/xds\_resolver.go\<close>

text \<open>
  The resolver is a state machine whose callbacks all run on one serializer, so every
  callback is a function from the resolver state to the resolver state. Three things
  the Go code does through pointers and interfaces are made explicit here:
  \<^item> \<open>*clusterInfo\<close> values live in a store indexed by addresses; the active-cluster
    table and the config selectors hold addresses, as the Go maps hold pointers;
  \<^item> a Go \<open>map[K]V\<close> is the list of its entries (keys pairwise distinct); a \<open>range\<close>
    loop visits the entries in the order of the list, and no result proved below
    depends on that order;
  \<^item> calls on the channel (\<open>UpdateState\<close>, \<open>ReportError\<close>), on watchers and on config
    selectors are appended to the field \<open>effects\<close> of the resolver, in call order.
  Logging is left out.
\<close>

subsection \<open>Configuration payloads\<close>

text \<open>
  \<open>balancerConfig\<close> is \<open>[]map[string]any\<close> in Go; each element is a one-entry map from
  a policy name to its configuration. The zero value is the empty list.
\<close>

datatype lbPolicyConfig = CdsBalancerConfig string | PluginConfig string

type_synonym balancerConfig = "(string \<times> lbPolicyConfig) list"

datatype xdsChildConfig = ChildPolicy balancerConfig

definition clusterPrefix :: string where
  "clusterPrefix = ''cluster:''"

text \<open>
  Modelled from the spec: the constant \<open>clusterSpecifierPluginPrefix\<close> is declared
  outside xds\_resolver.go; the spec gives the key of a plugin cluster as \<open>csp:<plugin-name>\<close>.
\<close>

definition clusterSpecifierPluginPrefix :: string where
  "clusterSpecifierPluginPrefix = ''csp:''"

text \<open>
  Modelled from the spec: the constant \<open>cdsName\<close> and the function \<open>newBalancerConfig\<close>
  are declared outside xds\_resolver.go; the spec records for a weighted cluster
  "a CDS child-policy pointing at" the cluster.
\<close>

definition cdsName :: string where
  "cdsName = ''cds''"

definition newBalancerConfig :: "string \<Rightarrow> lbPolicyConfig \<Rightarrow> balancerConfig" where
  "newBalancerConfig name config = [(name, config)]"

type_synonym httpFilterOverrides = "(string \<times> string) list"
type_synonym retryConfig = "string option"
type_synonym duration = int
type_synonym compositeMatcher = string

datatype routeActionType =
  RouteActionUnsupported | RouteActionRoute | RouteActionNonForwardingAction

subsection \<open>xDS resources (package xdsresource)\<close>

record WeightedCluster =
  Weight :: "32 word"
  wc_HTTPFilterConfigOverride :: httpFilterOverrides

record Route =
  Path :: "string option"
  Prefix :: "string option"
  Regex :: "string option"
  HashPolicies :: "string list"
  MaxStreamDuration :: "duration option"
  rt_HTTPFilterConfigOverride :: httpFilterOverrides
  rt_RetryConfig :: retryConfig
  ActionType :: routeActionType
  WeightedClusters :: "(string \<times> WeightedCluster) list"
  ClusterSpecifierPlugin :: string

record VirtualHost =
  Domains :: "string list"
  Routes :: "Route list"
  vh_HTTPFilterConfigOverride :: httpFilterOverrides
  vh_RetryConfig :: retryConfig

record RouteConfigUpdate =
  VirtualHosts :: "VirtualHost list"
  ClusterSpecifierPlugins :: "(string \<times> balancerConfig) list"

record ListenerUpdate =
  RouteConfigName :: string
  InlineRouteConfig :: "RouteConfigUpdate option"
  ld_MaxStreamDuration :: duration
  HTTPFilters :: "string list"

definition zeroRouteConfigUpdate :: RouteConfigUpdate where
  "zeroRouteConfigUpdate = \<lparr>VirtualHosts = [], ClusterSpecifierPlugins = []\<rparr>"

definition zeroListenerUpdate :: ListenerUpdate where
  "zeroListenerUpdate =
     \<lparr>RouteConfigName = [], InlineRouteConfig = None, ld_MaxStreamDuration = 0,
      HTTPFilters = []\<rparr>"

subsection \<open>Cluster records and config selectors\<close>

type_synonym addr = nat

record clusterInfo =
  refCount :: "32 word"
  cfg :: xdsChildConfig

record routeCluster =
  rc_name :: string
  rc_httpFilterConfigOverride :: httpFilterOverrides

text \<open>The weighted picker: the items added to it with their \<open>int64\<close> weights.\<close>

type_synonym wrr = "(routeCluster \<times> 64 word) list"

definition wrrAdd :: "wrr \<Rightarrow> routeCluster \<Rightarrow> 64 word \<Rightarrow> wrr" where
  "wrrAdd w item weight = w @ [(item, weight)]"

record route =
  m :: compositeMatcher
  actionType :: routeActionType
  r_clusters :: wrr
  maxStreamDuration :: duration
  r_httpFilterConfigOverride :: httpFilterOverrides
  r_retryConfig :: retryConfig
  hashPolicies :: "string list"

record virtualHost =
  v_httpFilterConfigOverride :: httpFilterOverrides
  v_retryConfig :: retryConfig

record configSelector =
  cs_virtualHost :: virtualHost
  routes :: "route list"
  clusters :: "(string \<times> addr) list"
  httpFilterConfig :: "string list"

subsection \<open>Errors, channel updates and effects\<close>

datatype error =
    ErrCreateXDSClient error
  | ErrBootstrapEmpty
  | ErrCertProvidersMissing
  | ErrAuthorityNotFound string
  | ErrNoMatchingVirtualHost string
  | ErrMatcher string
  | ErrMarshal string
  | ErrXDS string

text \<open>
  The service-configuration document handed to \<open>ParseServiceConfig\<close>: the literal \<open>{}\<close>,
  or the document with the single load-balancing policy \<open>xds_cluster_manager\<close> and its
  children.
\<close>

datatype serviceConfig = EmptyObject | XdsClusterManager "(string \<times> xdsChildConfig) list"

text \<open>
  \<open>resolver.State\<close> as the resolver fills it: the parsed service config, the config
  selector attribute (absent, or set to a possibly nil \<open>*configSelector\<close>) and whether
  the xDS client is attached.
\<close>

datatype selectorAttr = NoSelectorAttr | SelectorAttr "configSelector option"

record State =
  ServiceConfig :: serviceConfig
  ConfigSelector :: selectorAttr
  XDSClientAttached :: bool

datatype effect =
    UpdateState State
  | ReportError error
  | WatchListener string
  | WatchRouteConfig string
  | StopListenerWatcher string
  | StopRouteConfigWatcher string
  | SelectorStopped configSelector
  | ScheduleOnClusterRefDownToZero
  | CloseXDSClient

subsection \<open>Collaborators outside the file\<close>

record Authority =
  ClientListenerResourceNameTemplate :: string

record bootstrapConfig =
  CertProviderConfigs :: "(string \<times> string) list"
  ClientDefaultListenerResourceNameTemplate :: string
  Authorities :: "(string \<times> Authority) list"

record xdsClient =
  BootstrapConfig :: "bootstrapConfig option"

text \<open>
  Functions of other packages that the resolver calls, taken as parameters:
  the outcome of the default client factory \<open>rinternal.NewXDSClient\<close>,
  \<open>xdsresource.RouteToMatcher\<close>, \<open>xdsresource.FindBestMatchingVirtualHost\<close>,
  \<open>bootstrap.PopulateResourceTemplate\<close> and the outcome of \<open>json.Marshal\<close> on a
  service configuration (\<open>None\<close>: no error).
\<close>

record deps =
  NewXDSClient :: "error + xdsClient"
  RouteToMatcher :: "Route \<Rightarrow> error + compositeMatcher"
  FindBestMatchingVirtualHost :: "string \<Rightarrow> VirtualHost list \<Rightarrow> VirtualHost option"
  PopulateResourceTemplate :: "string \<Rightarrow> string \<Rightarrow> string"
  jsonMarshal :: "serviceConfig \<Rightarrow> error option"

subsection \<open>The resolver state\<close>

record xdsResolver =
  xdsClient :: "xdsClient option"
  ldsResourceName :: string
  listenerWatcher :: "string option"
  listenerUpdateRecvd :: bool
  currentListener :: ListenerUpdate
  rdsResourceName :: string
  routeConfigWatcher :: "string option"
  routeConfigUpdateRecvd :: bool
  currentRouteConfig :: RouteConfigUpdate
  currentVirtualHost :: "VirtualHost option"
  activeClusters :: "(string \<times> addr) list"
  curConfigSelector :: "configSelector option"
  store :: "addr \<Rightarrow> clusterInfo"
  nextAddr :: addr
  effects :: "effect list"

text \<open>
  A watcher is represented by the resource name it watches; \<open>None\<close> is the nil pointer.
  \<open>store\<close> holds every \<open>clusterInfo\<close> ever allocated and \<open>nextAddr\<close> is the next
  address \<open>&clusterInfo{...}\<close> returns.
\<close>

subsection \<open>The active-cluster table\<close>

definition pruneActiveClusters :: "xdsResolver \<Rightarrow> xdsResolver" where
  "pruneActiveClusters r =
     r\<lparr>activeClusters :=
         filter (\<lambda>(cluster, ci). refCount (store r ci) \<noteq> 0) (activeClusters r)\<rparr>"

definition addOrGetActiveClusterInfo :: "string \<Rightarrow> xdsResolver \<Rightarrow> addr \<times> xdsResolver" where
  "addOrGetActiveClusterInfo name r =
     (case map_of (activeClusters r) name of
        Some ci \<Rightarrow> (ci, r)
      | None \<Rightarrow>
          (let ci = nextAddr r
           in (ci, r\<lparr>store := (store r)(ci := \<lparr>refCount = 0, cfg = ChildPolicy []\<rparr>),
                     nextAddr := Suc ci,
                     activeClusters := activeClusters r @ [(name, ci)]\<rparr>)))"

subsection \<open>Service-config generation\<close>

text \<open>
  Modelled from the spec: \<open>serviceConfigJSON\<close> is defined outside xds\_resolver.go.
  The spec (section 4.3): the document declares the load-balancing policy
  \<open>xds_cluster_manager\<close> "whose children are exactly the keys of the active-cluster
  table with their recorded child-policy configs". Its error result is that of the
  JSON marshalling.
\<close>

definition serviceConfigJSON ::
  "deps \<Rightarrow> (addr \<Rightarrow> clusterInfo) \<Rightarrow> (string \<times> addr) list \<Rightarrow> error + serviceConfig" where
  "serviceConfigJSON d st ac =
     (let sc = XdsClusterManager (map (\<lambda>(cluster, ci). (cluster, cfg (st ci))) ac)
      in case jsonMarshal d sc of
           Some err \<Rightarrow> Inl err
         | None \<Rightarrow> Inr sc)"

definition sendNewServiceConfig ::
  "deps \<Rightarrow> configSelector option \<Rightarrow> xdsResolver \<Rightarrow> bool \<times> xdsResolver" where
  "sendNewServiceConfig d cs r0 =
     (let r = pruneActiveClusters r0
      in if cs = None \<and> length (activeClusters r) = 0
         then (True,
               r\<lparr>effects := effects r @
                   [UpdateState \<lparr>ServiceConfig = EmptyObject, ConfigSelector = NoSelectorAttr,
                                 XDSClientAttached = False\<rparr>]\<rparr>)
         else (case serviceConfigJSON d (store r) (activeClusters r) of
                 Inl err \<Rightarrow> (False, r\<lparr>effects := effects r @ [ReportError err]\<rparr>)
               | Inr sc \<Rightarrow>
                   (True,
                    r\<lparr>effects := effects r @
                        [UpdateState \<lparr>ServiceConfig = sc, ConfigSelector = SelectorAttr cs,
                                      XDSClientAttached = True\<rparr>]\<rparr>)))"

subsection \<open>Building a config selector\<close>

definition setCfg :: "addr \<Rightarrow> xdsChildConfig \<Rightarrow> xdsResolver \<Rightarrow> xdsResolver" where
  "setCfg ci c r = r\<lparr>store := (store r)(ci := (store r ci)\<lparr>cfg := c\<rparr>)\<rparr>"

text \<open>The inner loop of \<open>newConfigSelector\<close> over \<open>rt.WeightedClusters\<close>.\<close>

fun addWeightedClusters ::
  "(string \<times> WeightedCluster) list \<Rightarrow> wrr \<times> (string \<times> addr) list \<times> xdsResolver
     \<Rightarrow> wrr \<times> (string \<times> addr) list \<times> xdsResolver" where
  "addWeightedClusters [] acc = acc"
| "addWeightedClusters ((cluster, wc) # rest) (wclusters, csClusters, r) =
     (let clusterName = clusterPrefix @ cluster;
          wclusters' = wrrAdd wclusters
             \<lparr>rc_name = clusterName,
              rc_httpFilterConfigOverride = wc_HTTPFilterConfigOverride wc\<rparr>
             (ucast (Weight wc));
          (ci, r1) = addOrGetActiveClusterInfo clusterName r;
          r2 = setCfg ci
                 (ChildPolicy (newBalancerConfig cdsName (CdsBalancerConfig cluster))) r1
      in addWeightedClusters rest (wclusters', AList.update clusterName ci csClusters, r2))"

text \<open>The picker of one route and the clusters it registers (lines 311 to 332).\<close>

definition routeClusters ::
  "Route \<Rightarrow> (string \<times> addr) list \<times> xdsResolver \<Rightarrow> wrr \<times> (string \<times> addr) list \<times> xdsResolver"
  where
  "routeClusters rt acc =
     (case acc of (csClusters, r) \<Rightarrow>
        if ClusterSpecifierPlugin rt \<noteq> []
        then (let clusterName = clusterSpecifierPluginPrefix @ ClusterSpecifierPlugin rt;
                  wclusters = wrrAdd []
                     \<lparr>rc_name = clusterName, rc_httpFilterConfigOverride = []\<rparr> 1;
                  (ci, r1) = addOrGetActiveClusterInfo clusterName r;
                  r2 = setCfg ci
                         (ChildPolicy
                            (case map_of (ClusterSpecifierPlugins (currentRouteConfig r1))
                                    (ClusterSpecifierPlugin rt) of
                               None \<Rightarrow> []
                             | Some bc \<Rightarrow> bc)) r1
              in (wclusters, AList.update clusterName ci csClusters, r2))
        else addWeightedClusters (WeightedClusters rt) ([], csClusters, r))"

text \<open>
  The loop of \<open>newConfigSelector\<close> over the routes of the virtual host. It returns at
  the first route whose matcher cannot be built; the clusters registered up to and
  including that route stay in the table.
\<close>

fun buildRoutes ::
  "deps \<Rightarrow> Route list \<Rightarrow> route list \<times> (string \<times> addr) list \<times> xdsResolver
     \<Rightarrow> (error + route list \<times> (string \<times> addr) list) \<times> xdsResolver" where
  "buildRoutes d [] (rs, csClusters, r) = (Inr (rs, csClusters), r)"
| "buildRoutes d (rt # rest) (rs, csClusters, r) =
     (case routeClusters rt (csClusters, r) of (wclusters, csClusters', r') \<Rightarrow>
        (case RouteToMatcher d rt of
           Inl err \<Rightarrow> (Inl err, r')
         | Inr mt \<Rightarrow>
             buildRoutes d rest
               (rs @ [\<lparr>m = mt,
                        actionType = ActionType rt,
                        r_clusters = wclusters,
                        maxStreamDuration =
                          (case MaxStreamDuration rt of
                             None \<Rightarrow> ld_MaxStreamDuration (currentListener r')
                           | Some dur \<Rightarrow> dur),
                        r_httpFilterConfigOverride = rt_HTTPFilterConfigOverride rt,
                        r_retryConfig = rt_RetryConfig rt,
                        hashPolicies = HashPolicies rt\<rparr>],
                csClusters', r')))"

text \<open>\<open>for _, ci := range cs.clusters { atomic.AddInt32(&ci.refCount, 1) }\<close>\<close>

fun addRefs :: "(string \<times> addr) list \<Rightarrow> (addr \<Rightarrow> clusterInfo) \<Rightarrow> (addr \<Rightarrow> clusterInfo)" where
  "addRefs [] st = st"
| "addRefs ((cluster, ci) # rest) st =
     addRefs rest (st(ci := (st ci)\<lparr>refCount := refCount (st ci) + 1\<rparr>))"

text \<open>
  \<open>None\<close> is the panic of dereferencing a nil \<open>r.currentVirtualHost\<close>; the error result
  is the one of \<open>RouteToMatcher\<close>.
\<close>

definition newConfigSelector ::
  "deps \<Rightarrow> xdsResolver \<Rightarrow> ((error + configSelector) \<times> xdsResolver) option" where
  "newConfigSelector d r =
     (case currentVirtualHost r of
        None \<Rightarrow> None
      | Some vh \<Rightarrow>
          (case buildRoutes d (Routes vh) ([], [], r) of
             (Inl err, r') \<Rightarrow> Some (Inl err, r')
           | (Inr (rs, csClusters), r') \<Rightarrow>
               Some (Inr \<lparr>cs_virtualHost =
                            \<lparr>v_httpFilterConfigOverride = vh_HTTPFilterConfigOverride vh,
                             v_retryConfig = vh_RetryConfig vh\<rparr>,
                          routes = rs,
                          clusters = csClusters,
                          httpFilterConfig = HTTPFilters (currentListener r)\<rparr>,
                     r'\<lparr>store := addRefs csClusters (store r')\<rparr>)))"

subsection \<open>Stopping a config selector\<close>

fun dropRefs ::
  "(string \<times> addr) list \<Rightarrow> bool \<times> (addr \<Rightarrow> clusterInfo) \<Rightarrow> bool \<times> (addr \<Rightarrow> clusterInfo)" where
  "dropRefs [] acc = acc"
| "dropRefs ((cluster, ci) # rest) (needUpdate, st) =
     (let v = refCount (st ci) - 1
      in dropRefs rest (needUpdate \<or> v = 0, st(ci := (st ci)\<lparr>refCount := v\<rparr>)))"

text \<open>
  Modelled from the spec: \<open>(*configSelector).stop\<close> is defined outside xds\_resolver.go.
  The spec (section 4.2): "Stopping: decrement each held cluster-reference once and
  mark stopped"; (section 4.1) \<open>onClusterRefDownToZero\<close> is "posted when any cluster's
  refCount transitions to 0". The resolver calls it on a possibly nil selector
  ("Stop and dereference the active config selector, if one exists").
\<close>

definition stop :: "configSelector option \<Rightarrow> xdsResolver \<Rightarrow> xdsResolver" where
  "stop cso r =
     (case cso of
        None \<Rightarrow> r
      | Some cs \<Rightarrow>
          (case dropRefs (clusters cs) (False, store r) of (needUpdate, st) \<Rightarrow>
             r\<lparr>store := st,
               effects := effects r @ [SelectorStopped cs] @
                 (if needUpdate then [ScheduleOnClusterRefDownToZero] else [])\<rparr>))"

subsection \<open>Watchers\<close>

text \<open>
  Modelled from the spec: \<open>newRouteConfigWatcher\<close>, \<open>newListenerWatcher\<close> and the
  watchers' \<open>stop\<close> are defined outside xds\_resolver.go. The spec (section 4.4): they
  "subscribe via the xDS client", and \<open>stop()\<close> cancels the subscription.
\<close>

definition newListenerWatcher :: "string \<Rightarrow> xdsResolver \<Rightarrow> xdsResolver" where
  "newListenerWatcher name r =
     r\<lparr>listenerWatcher := Some name, effects := effects r @ [WatchListener name]\<rparr>"

definition newRouteConfigWatcher :: "string \<Rightarrow> xdsResolver \<Rightarrow> xdsResolver" where
  "newRouteConfigWatcher name r =
     r\<lparr>routeConfigWatcher := Some name, effects := effects r @ [WatchRouteConfig name]\<rparr>"

definition stopListenerWatcher :: "string \<Rightarrow> xdsResolver \<Rightarrow> xdsResolver" where
  "stopListenerWatcher w r = r\<lparr>effects := effects r @ [StopListenerWatcher w]\<rparr>"

definition stopRouteConfigWatcher :: "string \<Rightarrow> xdsResolver \<Rightarrow> xdsResolver" where
  "stopRouteConfigWatcher w r = r\<lparr>effects := effects r @ [StopRouteConfigWatcher w]\<rparr>"

subsection \<open>Resolution\<close>

definition resolutionComplete :: "xdsResolver \<Rightarrow> bool" where
  "resolutionComplete r \<longleftrightarrow>
     listenerUpdateRecvd r \<and> routeConfigUpdateRecvd r \<and> currentVirtualHost r \<noteq> None"

text \<open>The callbacks return \<open>None\<close> when the Go code panics.\<close>

definition onResolutionComplete :: "deps \<Rightarrow> xdsResolver \<Rightarrow> xdsResolver option" where
  "onResolutionComplete d r =
     (if \<not> resolutionComplete r then Some r
      else case newConfigSelector d r of
             None \<Rightarrow> None
           | Some (Inl err, r1) \<Rightarrow> Some (r1\<lparr>effects := effects r1 @ [ReportError err]\<rparr>)
           | Some (Inr cs, r1) \<Rightarrow>
               (case sendNewServiceConfig d (Some cs) r1 of
                  (False, r2) \<Rightarrow> Some (stop (Some cs) r2)
                | (True, r2) \<Rightarrow>
                    Some ((stop (curConfigSelector r2) r2)\<lparr>curConfigSelector := Some cs\<rparr>)))"

definition onError :: "error \<Rightarrow> xdsResolver \<Rightarrow> xdsResolver" where
  "onError err r = r\<lparr>effects := effects r @ [ReportError err]\<rparr>"

definition applyRouteConfigUpdate ::
  "deps \<Rightarrow> RouteConfigUpdate \<Rightarrow> xdsResolver \<Rightarrow> xdsResolver option" where
  "applyRouteConfigUpdate d update r =
     (case FindBestMatchingVirtualHost d (ldsResourceName r) (VirtualHosts update) of
        None \<Rightarrow> Some (onError (ErrNoMatchingVirtualHost (ldsResourceName r)) r)
      | Some matchVh \<Rightarrow>
          onResolutionComplete d
            (r\<lparr>currentRouteConfig := update,
               currentVirtualHost := Some matchVh,
               routeConfigUpdateRecvd := True\<rparr>))"

definition onResourceNotFound :: "deps \<Rightarrow> xdsResolver \<Rightarrow> xdsResolver" where
  "onResourceNotFound d r =
     (let r1 = snd (sendNewServiceConfig d None r)
      in (stop (curConfigSelector r1) r1)\<lparr>curConfigSelector := None\<rparr>)"

subsection \<open>Listener callbacks\<close>

definition onListenerResourceUpdate ::
  "deps \<Rightarrow> ListenerUpdate \<Rightarrow> xdsResolver \<Rightarrow> xdsResolver option" where
  "onListenerResourceUpdate d update r0 =
     (let r = r0\<lparr>currentListener := update, listenerUpdateRecvd := True\<rparr>
      in case InlineRouteConfig update of
           Some inlineRouteConfig \<Rightarrow>
             (let r1 = r\<lparr>rdsResourceName := []\<rparr>;
                  r2 = (case routeConfigWatcher r1 of
                          None \<Rightarrow> r1
                        | Some w \<Rightarrow> (stopRouteConfigWatcher w r1)\<lparr>routeConfigWatcher := None\<rparr>)
              in applyRouteConfigUpdate d inlineRouteConfig r2)
         | None \<Rightarrow>
             if rdsResourceName r = RouteConfigName update
             then onResolutionComplete d r
             else (let r1 = r\<lparr>rdsResourceName := RouteConfigName update\<rparr>;
                       r2 = (case routeConfigWatcher r1 of
                               None \<Rightarrow> r1
                             | Some w \<Rightarrow>
                                 (stopRouteConfigWatcher w r1)
                                   \<lparr>currentVirtualHost := None,
                                    routeConfigUpdateRecvd := False\<rparr>)
                   in Some (newRouteConfigWatcher (rdsResourceName r2) r2)))"

definition onListenerResourceError :: "error \<Rightarrow> xdsResolver \<Rightarrow> xdsResolver" where
  "onListenerResourceError err r = onError err r"


subsection \<open>Route-config callbacks\<close>

definition onRouteConfigResourceUpdate ::
  "deps \<Rightarrow> string \<Rightarrow> RouteConfigUpdate \<Rightarrow> xdsResolver \<Rightarrow> xdsResolver option" where
  "onRouteConfigResourceUpdate d name update r =
     (if rdsResourceName r \<noteq> name then Some r
      else applyRouteConfigUpdate d update r)"

definition onRouteConfigResourceError :: "string \<Rightarrow> error \<Rightarrow> xdsResolver \<Rightarrow> xdsResolver" where
  "onRouteConfigResourceError name err r = onError err r"

definition onRouteConfigResourceNotFound :: "deps \<Rightarrow> string \<Rightarrow> xdsResolver \<Rightarrow> xdsResolver" where
  "onRouteConfigResourceNotFound d name r =
     (if rdsResourceName r \<noteq> name then r
      else onResourceNotFound d r)"

definition onClusterRefDownToZero :: "deps \<Rightarrow> xdsResolver \<Rightarrow> xdsResolver" where
  "onClusterRefDownToZero d r = snd (sendNewServiceConfig d (curConfigSelector r) r)"

subsection \<open>Build and Close\<close>

record URL =
  url_Host :: string
  url_Path :: string
  url_Opaque :: string

text \<open>
  Transport credentials: \<open>UsesXDS\<close> is \<open>None\<close> when the credentials do not implement
  \<open>interface{ UsesXDS() bool }\<close>, and otherwise what the method returns.
\<close>

record transportCredentials =
  UsesXDS :: "bool option"

record credsBundle =
  TransportCredentials :: "transportCredentials option"

record BuildOptions =
  DialCreds :: "transportCredentials option"
  CredsBundle :: "credsBundle option"

record xdsResolverBuilder =
  newXDSClient :: "(error + xdsClient) option"

text \<open>\<open>strings.TrimPrefix\<close>\<close>

definition TrimPrefix :: "string \<Rightarrow> string \<Rightarrow> string" where
  "TrimPrefix s pre = (if take (length pre) s = pre then drop (length pre) s else s)"

definition sanityChecksOnBootstrapConfig ::
  "URL \<Rightarrow> BuildOptions \<Rightarrow> xdsClient \<Rightarrow> error + string" where
  "sanityChecksOnBootstrapConfig target opts client =
     (case BootstrapConfig client of
        None \<Rightarrow> Inl ErrBootstrapEmpty
      | Some bootstrapConfig \<Rightarrow>
          (let creds = (case DialCreds opts of
                          Some c \<Rightarrow> Some c
                        | None \<Rightarrow>
                            (case CredsBundle opts of
                               Some b \<Rightarrow> TransportCredentials b
                             | None \<Rightarrow> None));
               usesXDS = (case creds of
                            None \<Rightarrow> False
                          | Some xc \<Rightarrow> (case UsesXDS xc of None \<Rightarrow> False | Some u \<Rightarrow> u))
           in if usesXDS \<and> length (CertProviderConfigs bootstrapConfig) = 0
              then Inl ErrCertProvidersMissing
              else (let template = ClientDefaultListenerResourceNameTemplate bootstrapConfig;
                        authority = url_Host target
                    in if authority \<noteq> []
                       then (case map_of (Authorities bootstrapConfig) authority of
                               None \<Rightarrow> Inl (ErrAuthorityNotFound authority)
                             | Some a \<Rightarrow>
                                 if ClientListenerResourceNameTemplate a \<noteq> []
                                 then Inr (ClientListenerResourceNameTemplate a)
                                 else Inr template)
                       else Inr template)))"

definition Close :: "xdsResolver \<Rightarrow> xdsResolver" where
  "Close r =
     (let r1 = (case listenerWatcher r of None \<Rightarrow> r | Some w \<Rightarrow> stopListenerWatcher w r);
          r2 = (case routeConfigWatcher r1 of
                  None \<Rightarrow> r1
                | Some w \<Rightarrow> stopRouteConfigWatcher w r1)
      in if xdsClient r2 \<noteq> None then r2\<lparr>effects := effects r2 @ [CloseXDSClient]\<rparr> else r2)"

definition newResolver :: xdsResolver where
  "newResolver =
     \<lparr>xdsClient = None, ldsResourceName = [], listenerWatcher = None,
      listenerUpdateRecvd = False, currentListener = zeroListenerUpdate,
      rdsResourceName = [], routeConfigWatcher = None, routeConfigUpdateRecvd = False,
      currentRouteConfig = zeroRouteConfigUpdate, currentVirtualHost = None,
      activeClusters = [], curConfigSelector = None,
      store = (\<lambda>a. \<lparr>refCount = 0, cfg = ChildPolicy []\<rparr>), nextAddr = 0, effects = []\<rparr>"

text \<open>
  \<open>Build\<close> returns the error or the resolver; in the error case the deferred
  \<open>r.Close()\<close> has run on the resolver under construction, and the effects of the
  whole call are returned with the error.
\<close>

definition Build ::
  "deps \<Rightarrow> xdsResolverBuilder \<Rightarrow> URL \<Rightarrow> BuildOptions \<Rightarrow> (error + xdsResolver) \<times> effect list"
  where
  "Build d b target opts =
     (let r = newResolver;
          created = (case newXDSClient b of Some f \<Rightarrow> f | None \<Rightarrow> NewXDSClient d)
      in case created of
           Inl err \<Rightarrow>
             (Inl (ErrCreateXDSClient err), effects (Close r))
         | Inr client \<Rightarrow>
             (let r1 = r\<lparr>xdsClient := Some client\<rparr>
              in case sanityChecksOnBootstrapConfig target opts client of
                   Inl err \<Rightarrow> (Inl err, effects (Close r1))
                 | Inr template \<Rightarrow>
                     (let endpoint = url_Path target;
                          endpoint1 = (if endpoint = [] then url_Opaque target else endpoint);
                          endpoint2 = TrimPrefix endpoint1 ''/'';
                          r2 = r1\<lparr>ldsResourceName :=
                                    PopulateResourceTemplate d template endpoint2\<rparr>;
                          r3 = newListenerWatcher (ldsResourceName r2) r2
                      in (Inr r3, effects r3))))"

subsection \<open>What a selector build may change\<close>

text \<open>
  The relation between the resolver before and after the loops of \<open>newConfigSelector\<close>
  (before the reference counts are incremented): nothing is sent, the current selector
  and the received resources stay, and the only reference counts written are those of
  the \<open>clusterInfo\<close>s allocated on the way, which are 0.
\<close>

definition buildFrame :: "xdsResolver \<Rightarrow> xdsResolver \<Rightarrow> bool" where
  "buildFrame r r' \<longleftrightarrow>
     effects r' = effects r \<and> curConfigSelector r' = curConfigSelector r \<and>
     currentListener r' = currentListener r \<and> currentRouteConfig r' = currentRouteConfig r \<and>
     nextAddr r \<le> nextAddr r' \<and>
     (\<forall>a. refCount (store r' a) =
            (if nextAddr r \<le> a \<and> a < nextAddr r' then 0 else refCount (store r a)))"

subsection \<open>Example inputs\<close>

text \<open>
  The inputs of the scenarios of section 8 of the specification: a bootstrap with one
  authority, the target \<open>xds:///svc\<close>, the route configuration \<open>rc1\<close> with one virtual
  host for \<open>svc\<close> and one route to cluster \<open>A\<close>, and a resolver that has resolved it
  while cluster \<open>B\<close> of an earlier configuration has no reference left.
\<close>

definition fxBootstrap :: bootstrapConfig where
  "fxBootstrap =
     \<lparr>CertProviderConfigs = [],
      ClientDefaultListenerResourceNameTemplate = ''%s'',
      Authorities = [(''traffic-director'',
                      \<lparr>ClientListenerResourceNameTemplate = ''xdstp://traffic-director/%s''\<rparr>)]\<rparr>"

definition fxClient :: xdsClient where
  "fxClient = \<lparr>BootstrapConfig = Some fxBootstrap\<rparr>"

text \<open>An example of \<open>PopulateResourceTemplate\<close>: the first \<open>%s\<close> is replaced.\<close>

fun fxPopulate :: "string \<Rightarrow> string \<Rightarrow> string" where
  "fxPopulate (c1 # c2 # rest) target =
     (if c1 = CHR ''%'' \<and> c2 = CHR ''s'' then target @ rest
      else c1 # fxPopulate (c2 # rest) target)"
| "fxPopulate template target = template"

definition fxDeps :: deps where
  "fxDeps =
     \<lparr>NewXDSClient = Inr fxClient,
      RouteToMatcher =
        (\<lambda>rt. if Regex rt = Some ''['' then Inl (ErrMatcher ''invalid regex'')
              else Inr ''matcher''),
      FindBestMatchingVirtualHost = (\<lambda>host vhs. find (\<lambda>vh. host \<in> set (Domains vh)) vhs),
      PopulateResourceTemplate = fxPopulate,
      jsonMarshal = (\<lambda>sc. None)\<rparr>"

definition fxRoute :: "string option \<Rightarrow> string \<Rightarrow> Route" where
  "fxRoute regex cluster =
     \<lparr>Path = None, Prefix = (if regex = None then Some ''/'' else None), Regex = regex,
      HashPolicies = [], MaxStreamDuration = None, rt_HTTPFilterConfigOverride = [],
      rt_RetryConfig = None, ActionType = RouteActionRoute,
      WeightedClusters = [(cluster, \<lparr>Weight = 1, wc_HTTPFilterConfigOverride = []\<rparr>)],
      ClusterSpecifierPlugin = []\<rparr>"

definition fxVirtualHost :: "Route list \<Rightarrow> VirtualHost" where
  "fxVirtualHost rts =
     \<lparr>Domains = [''svc''], Routes = rts, vh_HTTPFilterConfigOverride = [],
      vh_RetryConfig = None\<rparr>"

definition fxRouteConfig :: RouteConfigUpdate where
  "fxRouteConfig =
     \<lparr>VirtualHosts = [fxVirtualHost [fxRoute None ''A'']], ClusterSpecifierPlugins = []\<rparr>"

definition fxTarget :: "string \<Rightarrow> string \<Rightarrow> string \<Rightarrow> URL" where
  "fxTarget host path opaque = \<lparr>url_Host = host, url_Path = path, url_Opaque = opaque\<rparr>"

definition fxNoCreds :: BuildOptions where
  "fxNoCreds = \<lparr>DialCreds = None, CredsBundle = None\<rparr>"

definition fxBuilder :: xdsResolverBuilder where
  "fxBuilder = \<lparr>newXDSClient = None\<rparr>"

definition fxStore :: "addr \<Rightarrow> clusterInfo" where
  "fxStore a =
     (if a = 0
      then \<lparr>refCount = 1,
            cfg = ChildPolicy (newBalancerConfig cdsName (CdsBalancerConfig ''A''))\<rparr>
      else \<lparr>refCount = 0, cfg = ChildPolicy []\<rparr>)"

definition fxSelector :: configSelector where
  "fxSelector =
     \<lparr>cs_virtualHost = \<lparr>v_httpFilterConfigOverride = [], v_retryConfig = None\<rparr>,
      routes = [], clusters = [(''cluster:A'', 0)], httpFilterConfig = []\<rparr>"

definition fxResolver :: xdsResolver where
  "fxResolver =
     newResolver\<lparr>xdsClient := Some fxClient,
                 ldsResourceName := ''svc'', listenerWatcher := Some ''svc'',
                 listenerUpdateRecvd := True,
                 rdsResourceName := ''rc1'', routeConfigWatcher := Some ''rc1'',
                 routeConfigUpdateRecvd := True,
                 currentRouteConfig := fxRouteConfig,
                 currentVirtualHost := Some (fxVirtualHost [fxRoute None ''A'']),
                 activeClusters := [(''cluster:A'', 0), (''cluster:B'', 1)],
                 curConfigSelector := Some fxSelector,
                 store := fxStore, nextAddr := 2\<rparr>"

definition fxBuilt :: xdsResolver where
  "fxBuilt = newResolver\<lparr>xdsClient := Some fxClient, ldsResourceName := ''svc'',
      listenerWatcher := Some ''svc'', effects := [WatchListener ''svc'']\<rparr>"

definition fxInlineListener :: ListenerUpdate where
  "fxInlineListener =
     \<lparr>RouteConfigName = [], InlineRouteConfig = Some fxRouteConfig,
      ld_MaxStreamDuration = 0, HTTPFilters = []\<rparr>"

definition fxNamedListener :: ListenerUpdate where
  "fxNamedListener =
     \<lparr>RouteConfigName = ''rc1'', InlineRouteConfig = None,
      ld_MaxStreamDuration = 0, HTTPFilters = []\<rparr>"

definition fxEmitted :: State where
  "fxEmitted =
     \<lparr>ServiceConfig =
        XdsClusterManager
          [(''cluster:A'', ChildPolicy (newBalancerConfig cdsName (CdsBalancerConfig ''A'')))],
      ConfigSelector = SelectorAttr None, XDSClientAttached = True\<rparr>"

definition fxDrained :: xdsResolver where
  "fxDrained = fxResolver\<lparr>store := (\<lambda>a. \<lparr>refCount = 0, cfg = ChildPolicy []\<rparr>),
                           curConfigSelector := None\<rparr>"

definition fxBadResolver :: xdsResolver where
  "fxBadResolver =
     fxResolver\<lparr>currentVirtualHost :=
                   Some (fxVirtualHost [fxRoute None ''A'', fxRoute (Some ''['') ''C''])\<rparr>"

definition fxXDSCreds :: BuildOptions where
  "fxXDSCreds =
     \<lparr>DialCreds = None,
      CredsBundle = Some \<lparr>TransportCredentials = Some \<lparr>UsesXDS = Some True\<rparr>\<rparr>\<rparr>"

definition fxEmptyBootstrapBuilder :: xdsResolverBuilder where
  "fxEmptyBootstrapBuilder = \<lparr>newXDSClient = Some (Inr \<lparr>BootstrapConfig = None\<rparr>)\<rparr>"



section \<open>Properties\<close>

lemmas fx_defs = fxResolver_def newResolver_def fxStore_def fxSelector_def fxDeps_def
  fxRouteConfig_def fxVirtualHost_def fxRoute_def fxClient_def fxBootstrap_def
  zeroListenerUpdate_def zeroRouteConfigUpdate_def newBalancerConfig_def cdsName_def
  clusterPrefix_def

lemmas send_defs = sendNewServiceConfig_def pruneActiveClusters_def serviceConfigJSON_def
lemmas build_defs = newConfigSelector_def routeClusters_def addOrGetActiveClusterInfo_def
  setCfg_def wrrAdd_def

subsection \<open>Auxiliary facts\<close>

lemma addOrGet_Some:
  "map_of (activeClusters r) name = Some ci \<Longrightarrow> addOrGetActiveClusterInfo name r = (ci, r)"
  by (simp add: addOrGetActiveClusterInfo_def)

lemma addOrGet_None:
  "map_of (activeClusters r) name = None \<Longrightarrow>
     addOrGetActiveClusterInfo name r =
       (nextAddr r,
        r\<lparr>store := (store r)(nextAddr r := \<lparr>refCount = 0, cfg = ChildPolicy []\<rparr>),
          nextAddr := Suc (nextAddr r),
          activeClusters := activeClusters r @ [(name, nextAddr r)]\<rparr>)"
  by (simp add: addOrGetActiveClusterInfo_def Let_def)

lemma prune_entries:
  "set (activeClusters (pruneActiveClusters r)) =
     {(k, a). (k, a) \<in> set (activeClusters r) \<and> refCount (store r a) \<noteq> 0}"
  by (auto simp: pruneActiveClusters_def)

lemma prune_frame:
  "store (pruneActiveClusters r) = store r" "effects (pruneActiveClusters r) = effects r"
  by (simp_all add: pruneActiveClusters_def)

lemma sint_nonneg_nonzero: "0 \<le> sint (w :: 32 word) \<Longrightarrow> w \<noteq> 0 \<Longrightarrow> 1 \<le> sint w"
proof -
  assume a: "0 \<le> sint w" and b: "w \<noteq> 0"
  from b have "sint w \<noteq> 0" by (simp add: signed_eq_0_iff)
  with a show ?thesis by arith
qed

lemma buildFrame_refl: "buildFrame r r"
  by (auto simp: buildFrame_def)

lemma buildFrame_trans: "buildFrame r r1 \<Longrightarrow> buildFrame r1 r2 \<Longrightarrow> buildFrame r r2"
  unfolding buildFrame_def by auto

lemma buildFrame_setCfg: "buildFrame r (setCfg ci c r)"
  by (auto simp: buildFrame_def setCfg_def)

lemma buildFrame_addOrGet: "buildFrame r (snd (addOrGetActiveClusterInfo name r))"
  by (auto simp: buildFrame_def addOrGetActiveClusterInfo_def Let_def split: option.splits)

lemma buildFrame_addWeightedClusters:
  "buildFrame r (snd (snd (addWeightedClusters wcs (w, cc, r))))"
proof (induction wcs arbitrary: w cc r)
  case Nil
  show ?case by (simp add: buildFrame_refl)
next
  case (Cons x wcs)
  obtain cluster wc where x: "x = (cluster, wc)" by (cases x)
  obtain ci r1 where ag: "addOrGetActiveClusterInfo (clusterPrefix @ cluster) r = (ci, r1)"
    by (cases "addOrGetActiveClusterInfo (clusterPrefix @ cluster) r")
  have "buildFrame r r1"
    using buildFrame_addOrGet [of r "clusterPrefix @ cluster"] by (simp add: ag)
  then have "buildFrame r (setCfg ci c r1)" for c
    by (rule buildFrame_trans) (rule buildFrame_setCfg)
  then show ?case
    unfolding x by (simp add: Let_def ag) (rule buildFrame_trans [OF _ Cons.IH])
qed

lemma buildFrame_routeClusters:
  "buildFrame r (snd (snd (routeClusters rt (cc, r))))"
proof (cases "ClusterSpecifierPlugin rt \<noteq> []")
  case False
  then show ?thesis
    by (simp add: routeClusters_def buildFrame_addWeightedClusters)
next
  case True
  obtain ci r1 where ag:
    "addOrGetActiveClusterInfo (clusterSpecifierPluginPrefix @ ClusterSpecifierPlugin rt) r = (ci, r1)"
    by (cases "addOrGetActiveClusterInfo (clusterSpecifierPluginPrefix @ ClusterSpecifierPlugin rt) r")
  have "buildFrame r r1"
    using buildFrame_addOrGet [of r "clusterSpecifierPluginPrefix @ ClusterSpecifierPlugin rt"]
    by (simp add: ag)
  then have "buildFrame r (setCfg ci c r1)" for c
    by (rule buildFrame_trans) (rule buildFrame_setCfg)
  with True show ?thesis
    by (simp add: routeClusters_def Let_def ag)
qed

lemma buildFrame_buildRoutes:
  "buildFrame r (snd (buildRoutes d rts (rs, cc, r)))"
proof (induction rts arbitrary: rs cc r)
  case Nil
  show ?case by (simp add: buildFrame_refl)
next
  case (Cons rt rts)
  obtain w cc' r' where rc: "routeClusters rt (cc, r) = (w, cc', r')"
    by (cases "routeClusters rt (cc, r)")
  have fr: "buildFrame r r'"
    using buildFrame_routeClusters [of r rt cc] by (simp add: rc)
  show ?case
  proof (cases "RouteToMatcher d rt")
    case (Inl err)
    with fr show ?thesis by (simp add: rc)
  next
    case (Inr mt)
    then show ?thesis
      by (simp add: rc) (rule buildFrame_trans [OF fr Cons.IH])
  qed
qed

lemma buildRoutes_error:
  "buildRoutes d rts (rs, cc, r) = (Inl err, r') \<Longrightarrow> \<exists>rt \<in> set rts. RouteToMatcher d rt = Inl err"
proof (induction rts arbitrary: rs cc r)
  case Nil
  then show ?case by simp
next
  case (Cons rt rts)
  obtain w cc' r1 where rc: "routeClusters rt (cc, r) = (w, cc', r1)"
    by (cases "routeClusters rt (cc, r)")
  show ?case
  proof (cases "RouteToMatcher d rt")
    case (Inl e)
    with Cons.prems show ?thesis by (simp add: rc)
  next
    case (Inr mt)
    with Cons.prems have "\<exists>rt \<in> set rts. RouteToMatcher d rt = Inl err"
      by (simp add: rc) (erule Cons.IH)
    then show ?thesis by simp
  qed
qed


text \<open>The resolution callbacks do not panic: the guard keeps the nil virtual host out.\<close>

lemma onResolutionComplete_returns: "\<exists>r'. onResolutionComplete d r = Some r'"
proof (cases "resolutionComplete r")
  case False
  then show ?thesis by (simp add: onResolutionComplete_def)
next
  case True
  then obtain vh where vh: "currentVirtualHost r = Some vh"
    by (auto simp: resolutionComplete_def)
  obtain res r1 where br: "buildRoutes d (Routes vh) ([], [], r) = (res, r1)"
    by (cases "buildRoutes d (Routes vh) ([], [], r)")
  show ?thesis
  proof (cases res)
    case (Inl err)
    with True vh br show ?thesis
      by (simp add: onResolutionComplete_def newConfigSelector_def)
  next
    case (Inr ok)
    obtain rs cc where ok: "ok = (rs, cc)" by (cases ok)
    from True vh br Inr ok show ?thesis
      by (simp add: onResolutionComplete_def newConfigSelector_def split: prod.splits bool.splits)
  qed
qed

lemma onListenerResourceUpdate_returns: "\<exists>r'. onListenerResourceUpdate d update r = Some r'"
  by (simp add: onListenerResourceUpdate_def applyRouteConfigUpdate_def Let_def
        onResolutionComplete_returns split: option.splits)

lemma onRouteConfigResourceUpdate_returns:
  "\<exists>r'. onRouteConfigResourceUpdate d name update r = Some r'"
  by (simp add: onRouteConfigResourceUpdate_def applyRouteConfigUpdate_def
        onResolutionComplete_returns split: option.splits)

subsection \<open>The active-cluster table and the emitted service configuration\<close>

text \<open>
  C10: \<open>addOrGetActiveClusterInfo\<close> is idempotent. For a name already in the table it
  returns the existing entry and leaves the resolver, hence every reference count and
  child config, as it is. For a new name it inserts and returns a fresh entry whose
  reference count is 0, and no \<open>clusterInfo\<close> of the table is written. Calling it a
  second time with the same name returns the same entry and changes nothing. The
  hypothesis is the allocator's invariant: the entries of the table were allocated
  before.
\<close>

theorem addOrGetActiveClusterInfo_idempotent:
  assumes "\<forall>(k, a) \<in> set (activeClusters r). a < nextAddr r"
  shows "(\<forall>ci. map_of (activeClusters r) name = Some ci \<longrightarrow>
            addOrGetActiveClusterInfo name r = (ci, r))
       \<and> (map_of (activeClusters r) name = None \<longrightarrow>
            (\<exists>ci r'. addOrGetActiveClusterInfo name r = (ci, r')
               \<and> map_of (activeClusters r') name = Some ci
               \<and> refCount (store r' ci) = 0
               \<and> (\<forall>k. k \<noteq> name \<longrightarrow> map_of (activeClusters r') k = map_of (activeClusters r) k)
               \<and> (\<forall>(k, a) \<in> set (activeClusters r). store r' a = store r a)))
       \<and> (case addOrGetActiveClusterInfo name r of
             (ci, r') \<Rightarrow> addOrGetActiveClusterInfo name r' = (ci, r'))"
proof (cases "map_of (activeClusters r) name")
  case None
  have fresh: "\<And>k a. (k, a) \<in> set (activeClusters r) \<Longrightarrow> a \<noteq> nextAddr r"
    using assms by fastforce
  let ?r' = "r\<lparr>store := (store r)(nextAddr r := \<lparr>refCount = 0, cfg = ChildPolicy []\<rparr>),
               nextAddr := Suc (nextAddr r),
               activeClusters := activeClusters r @ [(name, nextAddr r)]\<rparr>"
  have call: "addOrGetActiveClusterInfo name r = (nextAddr r, ?r')"
    by (rule addOrGet_None [OF None])
  have look: "map_of (activeClusters ?r') name = Some (nextAddr r)"
    using None by (simp add: map_add_def)
  have again: "addOrGetActiveClusterInfo name ?r' = (nextAddr r, ?r')"
    by (rule addOrGet_Some [OF look])
  have others: "\<forall>k. k \<noteq> name \<longrightarrow> map_of (activeClusters ?r') k = map_of (activeClusters r) k"
    by (auto simp: map_add_def split: option.splits)
  have kept: "\<forall>(k, a) \<in> set (activeClusters r). store ?r' a = store r a"
    using fresh by auto
  have "refCount (store ?r' (nextAddr r)) = 0"
    by simp
  with None call look again others kept show ?thesis
    by simp
next
  case (Some ci)
  then show ?thesis
    by (simp add: addOrGet_Some)
qed

text \<open>
  Witness of C10 on the example resolver: \<open>cluster:A\<close> is present, \<open>cluster:C\<close> is new.
\<close>

theorem addOrGetActiveClusterInfo_idempotent_witness:
  "list_all (\<lambda>(k, a). a < nextAddr fxResolver) (activeClusters fxResolver)
   \<and> addOrGetActiveClusterInfo ''cluster:A'' fxResolver = (0, fxResolver)
   \<and> map_of (activeClusters (snd (addOrGetActiveClusterInfo ''cluster:C'' fxResolver)))
        ''cluster:C'' = Some 2
   \<and> refCount (store (snd (addOrGetActiveClusterInfo ''cluster:C'' fxResolver)) 2) = 0
   \<and> refCount (store (snd (addOrGetActiveClusterInfo ''cluster:C'' fxResolver)) 0) = 1"
proof -
  have wf: "\<forall>(k, a) \<in> set (activeClusters fxResolver). a < nextAddr fxResolver"
    by (simp add: fx_defs)
  show ?thesis
    using wf addOrGetActiveClusterInfo_idempotent [OF wf, of "''cluster:A''"]
      addOrGetActiveClusterInfo_idempotent [OF wf, of "''cluster:C''"]
    by (simp add: fx_defs addOrGetActiveClusterInfo_def)
qed

text \<open>
  C1: every service configuration that \<open>sendNewServiceConfig\<close> emits outside its
  empty-document branch lists exactly the keys of the active-cluster table after
  pruning; pruning has removed exactly the entries whose reference count is 0, so the
  listed clusters are those present with a reference count of at least 1 at emission
  time. Reference counts are \<open>int32\<close>; the hypothesis \<open>nonneg\<close> is the data model's
  invariant that they are never negative.
\<close>

theorem sendNewServiceConfig_emits_active_clusters:
  assumes send: "sendNewServiceConfig d cs r = (ok, r')"
      and emitted: "UpdateState st \<in> set (drop (length (effects r)) (effects r'))"
      and branch: "\<not> (cs = None \<and> activeClusters (pruneActiveClusters r) = [])"
      and nonneg: "\<forall>(k, a) \<in> set (activeClusters r). 0 \<le> sint (refCount (store r a))"
  shows "(\<exists>children. ServiceConfig st = XdsClusterManager children
            \<and> map fst children = map fst (activeClusters r')
            \<and> set (map fst children) =
                {C. \<exists>ci. map_of (activeClusters r') C = Some ci
                          \<and> 1 \<le> sint (refCount (store r' ci))})
       \<and> set (activeClusters r') =
            {(C, ci). (C, ci) \<in> set (activeClusters r) \<and> refCount (store r ci) \<noteq> 0}
       \<and> store r' = store r"
proof -
  let ?p = "pruneActiveClusters r"
  obtain sc where sc: "serviceConfigJSON d (store ?p) (activeClusters ?p) = Inr sc"
    and r': "r' = ?p\<lparr>effects := effects ?p @
                 [UpdateState \<lparr>ServiceConfig = sc, ConfigSelector = SelectorAttr cs,
                               XDSClientAttached = True\<rparr>]\<rparr>"
    using send emitted branch
    by (auto simp: sendNewServiceConfig_def Let_def prune_frame split: sum.splits if_splits)
  have st: "ServiceConfig st = sc"
    using emitted by (simp add: r' prune_frame)
  have sc_eq: "sc = XdsClusterManager (map (\<lambda>(cluster, ci). (cluster, cfg (store r ci))) (activeClusters ?p))"
    using sc by (auto simp: serviceConfigJSON_def Let_def prune_frame split: option.splits)
  have ac: "activeClusters r' = activeClusters ?p" and store: "store r' = store r"
    by (simp_all add: r' prune_frame)
  have keys: "map fst (map (\<lambda>(cluster, ci). (cluster, cfg (store r ci))) (activeClusters ?p))
                = map fst (activeClusters ?p)"
    by (induction "activeClusters ?p") (auto simp: case_prod_unfold)
  have pos: "\<And>C ci. (C, ci) \<in> set (activeClusters ?p) \<Longrightarrow> 1 \<le> sint (refCount (store r ci))"
    using nonneg by (auto simp: prune_entries intro: sint_nonneg_nonzero)
  have setq: "set (map fst (activeClusters ?p)) =
                {C. \<exists>ci. map_of (activeClusters ?p) C = Some ci \<and> 1 \<le> sint (refCount (store r ci))}"
  proof (intro set_eqI iffI)
    fix C assume "C \<in> set (map fst (activeClusters ?p))"
    then obtain ci where "map_of (activeClusters ?p) C = Some ci"
      by (metis map_of_eq_None_iff not_Some_eq set_map)
    moreover from this have "(C, ci) \<in> set (activeClusters ?p)" by (rule map_of_SomeD)
    ultimately show "C \<in> {C. \<exists>ci. map_of (activeClusters ?p) C = Some ci \<and> 1 \<le> sint (refCount (store r ci))}"
      using pos by blast
  next
    fix C assume "C \<in> {C. \<exists>ci. map_of (activeClusters ?p) C = Some ci \<and> 1 \<le> sint (refCount (store r ci))}"
    then show "C \<in> set (map fst (activeClusters ?p))"
      by (auto dest!: map_of_SomeD intro: rev_image_eqI)
  qed
  have "\<exists>children. ServiceConfig st = XdsClusterManager children
            \<and> map fst children = map fst (activeClusters r')
            \<and> set (map fst children) =
                {C. \<exists>ci. map_of (activeClusters r') C = Some ci
                          \<and> 1 \<le> sint (refCount (store r' ci))}"
    unfolding ac store st sc_eq using keys setq by (metis serviceConfig.inject)
  moreover have "set (activeClusters r') =
            {(C, ci). (C, ci) \<in> set (activeClusters r) \<and> refCount (store r ci) \<noteq> 0}"
    unfolding ac by (rule prune_entries)
  ultimately show ?thesis using store by blast
qed

text \<open>
  Witness of C1: on the example resolver the emission lists \<open>cluster:A\<close> and not the
  unreferenced \<open>cluster:B\<close>.
\<close>

theorem sendNewServiceConfig_emits_active_clusters_witness:
  "sendNewServiceConfig fxDeps None fxResolver =
     (True, fxResolver\<lparr>activeClusters := [(''cluster:A'', 0)],
                       effects := [UpdateState fxEmitted]\<rparr>)
   \<and> (\<exists>children. ServiceConfig fxEmitted = XdsClusterManager children
          \<and> map fst children = [''cluster:A''])
   \<and> {C. \<exists>ci. map_of [(''cluster:A'', 0)] C = Some ci \<and> 1 \<le> sint (refCount (fxStore ci))}
       = {''cluster:A''}"
proof -
  let ?r' = "fxResolver\<lparr>activeClusters := [(''cluster:A'', 0)],
                         effects := [UpdateState fxEmitted]\<rparr>"
  have send: "sendNewServiceConfig fxDeps None fxResolver = (True, ?r')"
    by (simp add: send_defs fxEmitted_def Let_def fx_defs)
  have emitted: "UpdateState fxEmitted \<in> set (drop (length (effects fxResolver)) (effects ?r'))"
    by (simp add: fx_defs)
  have branch: "\<not> (None = (None :: configSelector option)
                    \<and> activeClusters (pruneActiveClusters fxResolver) = [])"
    by (simp add: pruneActiveClusters_def fx_defs)
  have nonneg: "\<forall>(k, a) \<in> set (activeClusters fxResolver). 0 \<le> sint (refCount (store fxResolver a))"
    by (simp add: fx_defs)
  show ?thesis
    using send sendNewServiceConfig_emits_active_clusters [OF send emitted branch nonneg]
    by (auto simp: fxStore_def)
qed

text \<open>
  C7: \<open>sendNewServiceConfig\<close> emits the empty document \<open>{}\<close> if and only if it is called
  with a nil config selector and the active-cluster table is empty after pruning; it
  then reports success, whatever \<open>serviceConfigJSON\<close> and the JSON marshalling would
  do.
\<close>

theorem sendNewServiceConfig_empty_document_iff:
  assumes send: "sendNewServiceConfig d cs r = (ok, r')"
  shows "((\<exists>st. UpdateState st \<in> set (drop (length (effects r)) (effects r'))
              \<and> ServiceConfig st = EmptyObject)
           \<longleftrightarrow> (cs = None \<and> activeClusters (pruneActiveClusters r) = []))
       \<and> (cs = None \<and> activeClusters (pruneActiveClusters r) = [] \<longrightarrow>
            ok \<and> (\<forall>d'. sendNewServiceConfig d' cs r = (ok, r'))
            \<and> effects r' = effects r @
                 [UpdateState \<lparr>ServiceConfig = EmptyObject, ConfigSelector = NoSelectorAttr,
                               XDSClientAttached = False\<rparr>])"
  using send
  by (auto simp: sendNewServiceConfig_def serviceConfigJSON_def Let_def prune_frame
           split: sum.splits if_splits option.splits)

text \<open>
  Witness of C7: with every cluster drained the empty document is emitted; with
  \<open>cluster:A\<close> still referenced it is not.
\<close>

theorem sendNewServiceConfig_empty_document_iff_witness:
  "sendNewServiceConfig fxDeps None fxDrained =
     (True, fxDrained\<lparr>activeClusters := [],
                      effects := [UpdateState \<lparr>ServiceConfig = EmptyObject,
                                               ConfigSelector = NoSelectorAttr,
                                               XDSClientAttached = False\<rparr>]\<rparr>)
   \<and> (\<forall>d'. sendNewServiceConfig d' None fxDrained = sendNewServiceConfig fxDeps None fxDrained)
   \<and> \<not> (\<exists>st. UpdateState st \<in> set (effects (snd (sendNewServiceConfig fxDeps None fxResolver)))
              \<and> ServiceConfig st = EmptyObject)"
proof -
  let ?r' = "fxDrained\<lparr>activeClusters := [],
                      effects := [UpdateState \<lparr>ServiceConfig = EmptyObject,
                                               ConfigSelector = NoSelectorAttr,
                                               XDSClientAttached = False\<rparr>]\<rparr>"
  have send: "sendNewServiceConfig fxDeps None fxDrained = (True, ?r')"
    by (simp add: send_defs fxDrained_def Let_def fx_defs)
  have send2: "sendNewServiceConfig fxDeps None fxResolver =
                 (fst (sendNewServiceConfig fxDeps None fxResolver),
                  snd (sendNewServiceConfig fxDeps None fxResolver))"
    by simp
  have e: "activeClusters (pruneActiveClusters fxDrained) = []"
    by (simp add: pruneActiveClusters_def fxDrained_def fx_defs)
  have ne: "activeClusters (pruneActiveClusters fxResolver) \<noteq> []"
    by (simp add: pruneActiveClusters_def fx_defs)
  have eff: "effects fxResolver = []"
    by (simp add: fx_defs)
  show ?thesis
    using sendNewServiceConfig_empty_document_iff [OF send] sendNewServiceConfig_empty_document_iff [OF send2] send e ne eff
    by simp
qed

subsection \<open>Resolution\<close>

text \<open>
  C6: \<open>onResolutionComplete\<close> returns the resolver as it is (no selector built, nothing
  emitted, no field changed) unless the listener and the route configuration have been
  received and a virtual host is matched.
\<close>

theorem onResolutionComplete_guard:
  assumes "\<not> (listenerUpdateRecvd r \<and> routeConfigUpdateRecvd r \<and> currentVirtualHost r \<noteq> None)"
  shows "onResolutionComplete d r = Some r"
  using assms by (simp add: onResolutionComplete_def resolutionComplete_def)

text \<open>
  Witness of C6: the resolver that has received nothing yet.
\<close>

theorem onResolutionComplete_guard_witness: "onResolutionComplete fxDeps newResolver = Some newResolver"
  using onResolutionComplete_guard[of newResolver fxDeps] by (simp add: newResolver_def)

text \<open>
  C2: when \<open>newConfigSelector\<close> fails, the error is the one \<open>RouteToMatcher\<close> gave for a
  route of the virtual host; \<open>onResolutionComplete\<close> reports it to the channel and does
  nothing else on the channel or on selectors; the current selector stays; and every
  reference count is what it was, the \<open>clusterInfo\<close>s allocated by the failed build
  having the count 0.
\<close>

theorem onResolutionComplete_selector_build_failure:
  assumes complete:
      "listenerUpdateRecvd r \<and> routeConfigUpdateRecvd r \<and> currentVirtualHost r = Some vh"
    and fails: "map_option fst (newConfigSelector d r) = Some (Inl err)"
  shows "(\<exists>rt \<in> set (Routes vh). RouteToMatcher d rt = Inl err)
       \<and> (\<exists>r'. onResolutionComplete d r = Some r'
             \<and> effects r' = effects r @ [ReportError err]
             \<and> curConfigSelector r' = curConfigSelector r
             \<and> (\<forall>a. refCount (store r' a) =
                     (if nextAddr r \<le> a \<and> a < nextAddr r' then 0 else refCount (store r a))))"
proof -
  obtain res r1 where br: "buildRoutes d (Routes vh) ([], [], r) = (res, r1)"
    by (cases "buildRoutes d (Routes vh) ([], [], r)")
  from fails complete br have res: "res = Inl err"
    by (auto simp: newConfigSelector_def split: sum.splits)
  have ncs: "newConfigSelector d r = Some (Inl err, r1)"
    using complete br res by (simp add: newConfigSelector_def)
  have fr: "buildFrame r r1"
    using buildFrame_buildRoutes [of r d "Routes vh" "[]" "[]"] by (simp add: br)
  have orc: "onResolutionComplete d r = Some (r1\<lparr>effects := effects r1 @ [ReportError err]\<rparr>)"
    using complete by (simp add: onResolutionComplete_def resolutionComplete_def ncs)
  have "\<exists>rt \<in> set (Routes vh). RouteToMatcher d rt = Inl err"
    using br res by (auto dest: buildRoutes_error)
  moreover have "effects (r1\<lparr>effects := effects r1 @ [ReportError err]\<rparr>) = effects r @ [ReportError err]"
    using fr by (simp add: buildFrame_def)
  moreover have "curConfigSelector (r1\<lparr>effects := effects r1 @ [ReportError err]\<rparr>) = curConfigSelector r"
    using fr by (simp add: buildFrame_def)
  moreover have "\<forall>a. refCount (store (r1\<lparr>effects := effects r1 @ [ReportError err]\<rparr>) a) =
      (if nextAddr r \<le> a \<and> a < nextAddr (r1\<lparr>effects := effects r1 @ [ReportError err]\<rparr>)
       then 0 else refCount (store r a))"
    using fr by (simp add: buildFrame_def)
  ultimately show ?thesis
    unfolding orc by blast
qed

text \<open>
  Witness of C2: the second route of the virtual host has an invalid regular expression.
\<close>

theorem onResolutionComplete_selector_build_failure_witness:
  "listenerUpdateRecvd fxBadResolver \<and> routeConfigUpdateRecvd fxBadResolver
   \<and> map_option fst (newConfigSelector fxDeps fxBadResolver) = Some (Inl (ErrMatcher ''invalid regex''))
   \<and> map_option effects (onResolutionComplete fxDeps fxBadResolver)
        = Some [ReportError (ErrMatcher ''invalid regex'')]
   \<and> map_option curConfigSelector (onResolutionComplete fxDeps fxBadResolver)
        = Some (Some fxSelector)"
proof -
  have complete: "listenerUpdateRecvd fxBadResolver \<and> routeConfigUpdateRecvd fxBadResolver
      \<and> currentVirtualHost fxBadResolver
          = Some (fxVirtualHost [fxRoute None ''A'', fxRoute (Some ''['') ''C''])"
    by (simp add: fxBadResolver_def fxResolver_def newResolver_def)
  have fails: "map_option fst (newConfigSelector fxDeps fxBadResolver)
                 = Some (Inl (ErrMatcher ''invalid regex''))"
    by (simp add: build_defs Let_def fxBadResolver_def fx_defs)
  have eff: "effects fxBadResolver = []" "curConfigSelector fxBadResolver = Some fxSelector"
    by (simp_all add: fxBadResolver_def fxResolver_def newResolver_def)
  show ?thesis
    using onResolutionComplete_selector_build_failure [OF complete fails] complete fails eff
    by auto
qed

subsection \<open>Resource-not-found\<close>




subsection \<open>Listener updates that change the route-config name\<close>

text \<open>
  C5, as stated, fails: the resolver built for \<open>xds:///svc\<close> receives a listener with an
  inline route configuration and then a listener naming \<open>rc1\<close>. No route-config watcher
  exists at the second update, so the virtual host and the route-config-received flag
  are not cleared.
\<close>

theorem onListenerResourceUpdate_name_change_keeps_virtual_host:
  "InlineRouteConfig fxNamedListener = None
   \<and> map_option rdsResourceName (onListenerResourceUpdate fxDeps fxInlineListener fxBuilt)
       = Some []
   \<and> RouteConfigName fxNamedListener = ''rc1''
   \<and> map_option currentVirtualHost
        (Option.bind (onListenerResourceUpdate fxDeps fxInlineListener fxBuilt)
           (onListenerResourceUpdate fxDeps fxNamedListener))
       = Some (Some (fxVirtualHost [fxRoute None ''A'']))
   \<and> map_option routeConfigUpdateRecvd
        (Option.bind (onListenerResourceUpdate fxDeps fxInlineListener fxBuilt)
           (onListenerResourceUpdate fxDeps fxNamedListener))
       = Some True"
  by (simp add: onListenerResourceUpdate_def applyRouteConfigUpdate_def onResolutionComplete_def
     resolutionComplete_def build_defs send_defs newRouteConfigWatcher_def
     stop_def Let_def fxBuilt_def fxInlineListener_def fxNamedListener_def fx_defs)

text \<open>
  C5, amended: for a listener update without inline route configuration whose
  \<open>RouteConfigName\<close> differs from the subscribed one, the resolver records the listener
  and the new name and starts a new route-config watcher; \<open>currentRouteConfig\<close>, the
  current selector and the active clusters stay, and nothing is sent to the channel.
  If a route-config watcher exists it is stopped and the virtual host and the
  route-config-received flag are cleared; if none exists they are left as they are.
\<close>

theorem onListenerResourceUpdate_name_change:
  assumes "InlineRouteConfig update = None"
      and "rdsResourceName r \<noteq> RouteConfigName update"
  shows "onListenerResourceUpdate d update r =
           Some (case routeConfigWatcher r of
                   Some w \<Rightarrow>
                     r\<lparr>currentListener := update, listenerUpdateRecvd := True,
                       rdsResourceName := RouteConfigName update,
                       currentVirtualHost := None, routeConfigUpdateRecvd := False,
                       routeConfigWatcher := Some (RouteConfigName update),
                       effects := effects r @
                         [StopRouteConfigWatcher w, WatchRouteConfig (RouteConfigName update)]\<rparr>
                 | None \<Rightarrow>
                     r\<lparr>currentListener := update, listenerUpdateRecvd := True,
                       rdsResourceName := RouteConfigName update,
                       routeConfigWatcher := Some (RouteConfigName update),
                       effects := effects r @ [WatchRouteConfig (RouteConfigName update)]\<rparr>)"
  using assms
  by (cases "routeConfigWatcher r")
     (simp_all add: onListenerResourceUpdate_def stopRouteConfigWatcher_def
        newRouteConfigWatcher_def Let_def)

text \<open>
  Witness of the amended C5, with and without an existing watcher.
\<close>

theorem onListenerResourceUpdate_name_change_witness:
  "InlineRouteConfig fxNamedListener = None
   \<and> rdsResourceName (fxResolver\<lparr>rdsResourceName := ''rc0'', routeConfigWatcher := Some ''rc0''\<rparr>)
        \<noteq> RouteConfigName fxNamedListener
   \<and> onListenerResourceUpdate fxDeps fxNamedListener
        (fxResolver\<lparr>rdsResourceName := ''rc0'', routeConfigWatcher := Some ''rc0''\<rparr>) =
       Some (fxResolver\<lparr>currentListener := fxNamedListener,
                        currentVirtualHost := None, routeConfigUpdateRecvd := False,
                        effects := [StopRouteConfigWatcher ''rc0'', WatchRouteConfig ''rc1'']\<rparr>)
   \<and> onListenerResourceUpdate fxDeps fxNamedListener
        (fxResolver\<lparr>rdsResourceName := [], routeConfigWatcher := None\<rparr>) =
       Some (fxResolver\<lparr>currentListener := fxNamedListener,
                        effects := [WatchRouteConfig ''rc1'']\<rparr>)"
proof -
  have a: "InlineRouteConfig fxNamedListener = None"
    by (simp add: fxNamedListener_def)
  have b: "rdsResourceName (fxResolver\<lparr>rdsResourceName := ''rc0'', routeConfigWatcher := Some ''rc0''\<rparr>)
        \<noteq> RouteConfigName fxNamedListener"
    by (simp add: fxNamedListener_def)
  have c: "rdsResourceName (fxResolver\<lparr>rdsResourceName := [], routeConfigWatcher := None\<rparr>)
        \<noteq> RouteConfigName fxNamedListener"
    by (simp add: fxNamedListener_def)
  have n: "RouteConfigName fxNamedListener = ''rc1''"
    by (simp add: fxNamedListener_def)
  show ?thesis
    using a b onListenerResourceUpdate_name_change [OF a b, of fxDeps] onListenerResourceUpdate_name_change [OF a c, of fxDeps]
    by (simp add: n fxResolver_def newResolver_def)
qed

subsection \<open>Stale route-config callbacks\<close>

text \<open>
  C3: the resolver is subscribed to \<open>rc1\<close>. An update and a not-found for \<open>rc0\<close> leave
  it as it is, but an error for \<open>rc0\<close> is reported to the channel:
  \<open>onRouteConfigResourceError\<close> does not compare the name.
\<close>

theorem onRouteConfigResourceError_reports_stale_error:
  "rdsResourceName fxResolver = ''rc1''
   \<and> onRouteConfigResourceError ''rc0'' (ErrXDS ''connection lost'') fxResolver =
       fxResolver\<lparr>effects := [ReportError (ErrXDS ''connection lost'')]\<rparr>
   \<and> onRouteConfigResourceUpdate fxDeps ''rc0'' fxRouteConfig fxResolver = Some fxResolver
   \<and> onRouteConfigResourceNotFound fxDeps ''rc0'' fxResolver = fxResolver"
  by (simp add: onRouteConfigResourceError_def onError_def onRouteConfigResourceUpdate_def
        onRouteConfigResourceNotFound_def fxResolver_def newResolver_def)

subsection \<open>Build\<close>

text \<open>
  C8: once the xDS client is created, \<open>Build\<close> fails, and its only effect is to close
  the client (no listener watcher is created), when the bootstrap configuration is
  empty, when xDS credentials are requested and the bootstrap has no certificate
  provider, and when the authority of the target is not in the bootstrap's
  authorities.
\<close>

theorem Build_fails_without_watcher:
  assumes created: "(case newXDSClient b of Some f \<Rightarrow> f | None \<Rightarrow> NewXDSClient d) = Inr client"
      and failing:
        "BootstrapConfig client = None
         \<or> (\<exists>bc c. BootstrapConfig client = Some bc
               \<and> (DialCreds opts = Some c
                    \<or> (DialCreds opts = None
                         \<and> (\<exists>bundle. CredsBundle opts = Some bundle
                               \<and> TransportCredentials bundle = Some c)))
               \<and> UsesXDS c = Some True \<and> CertProviderConfigs bc = [])
         \<or> (\<exists>bc. BootstrapConfig client = Some bc \<and> url_Host target \<noteq> []
               \<and> map_of (Authorities bc) (url_Host target) = None)"
  shows "\<exists>err. Build d b target opts = (Inl err, [CloseXDSClient])
           \<and> err \<in> {ErrBootstrapEmpty, ErrCertProvidersMissing,
                     ErrAuthorityNotFound (url_Host target)}"
  using failing
  by (auto simp: Build_def created sanityChecksOnBootstrapConfig_def Close_def
        newResolver_def Let_def split: option.splits)

text \<open>
  Witness of C8: one input for each of the three cases.
\<close>

theorem Build_fails_without_watcher_witness:
  "(\<exists>err. Build fxDeps fxEmptyBootstrapBuilder (fxTarget [] ''/svc'' []) fxNoCreds
             = (Inl err, [CloseXDSClient]))
   \<and> (\<exists>err. Build fxDeps fxBuilder (fxTarget [] ''/svc'' []) fxXDSCreds
             = (Inl err, [CloseXDSClient]))
   \<and> (\<exists>err. Build fxDeps fxBuilder (fxTarget ''missing'' ''/svc'' []) fxNoCreds
             = (Inl err, [CloseXDSClient]))"
proof -
  have c1: "(case newXDSClient fxEmptyBootstrapBuilder of Some f \<Rightarrow> f | None \<Rightarrow> NewXDSClient fxDeps)
              = Inr \<lparr>BootstrapConfig = None\<rparr>"
    by (simp add: fxEmptyBootstrapBuilder_def)
  have c2: "(case newXDSClient fxBuilder of Some f \<Rightarrow> f | None \<Rightarrow> NewXDSClient fxDeps)
              = Inr fxClient"
    by (simp add: fxBuilder_def fxDeps_def)
  have f1: "BootstrapConfig \<lparr>BootstrapConfig = None\<rparr> = None"
    by simp
  have f2: "\<exists>bc c. BootstrapConfig fxClient = Some bc
               \<and> (DialCreds fxXDSCreds = Some c
                    \<or> (DialCreds fxXDSCreds = None
                         \<and> (\<exists>bundle. CredsBundle fxXDSCreds = Some bundle
                               \<and> TransportCredentials bundle = Some c)))
               \<and> UsesXDS c = Some True \<and> CertProviderConfigs bc = []"
    by (simp add: fxClient_def fxBootstrap_def fxXDSCreds_def)
  have f3: "\<exists>bc. BootstrapConfig fxClient = Some bc
               \<and> url_Host (fxTarget ''missing'' ''/svc'' []) \<noteq> []
               \<and> map_of (Authorities bc) (url_Host (fxTarget ''missing'' ''/svc'' [])) = None"
    by (simp add: fxClient_def fxBootstrap_def fxTarget_def)
  show ?thesis
    using Build_fails_without_watcher [OF c1, where target = "fxTarget [] ''/svc'' []" and opts = fxNoCreds] f1
          Build_fails_without_watcher [OF c2, where target = "fxTarget [] ''/svc'' []" and opts = fxXDSCreds] f2
          Build_fails_without_watcher [OF c2, where target = "fxTarget ''missing'' ''/svc'' []" and opts = fxNoCreds] f3
    by blast
qed

text \<open>
  C9: when the client is created and the sanity checks pass, \<open>Build\<close> returns a
  resolver watching the listener named by the template applied to the endpoint: the
  path of the target, or its opaque part when the path is empty, without one leading
  \<open>/\<close>.
\<close>

theorem Build_endpoint:
  assumes created: "(case newXDSClient b of Some f \<Rightarrow> f | None \<Rightarrow> NewXDSClient d) = Inr client"
      and checked: "sanityChecksOnBootstrapConfig target opts client = Inr template"
  shows "(let e = (if url_Path target = [] then url_Opaque target else url_Path target);
              endpoint = (case e of [] \<Rightarrow> [] | c # rest \<Rightarrow> if c = CHR ''/'' then rest else e);
              name = PopulateResourceTemplate d template endpoint
          in \<exists>r. Build d b target opts = (Inr r, [WatchListener name])
               \<and> ldsResourceName r = name \<and> listenerWatcher r = Some name)"
  by (cases "if url_Path target = [] then url_Opaque target else url_Path target")
     (auto simp: Build_def created checked TrimPrefix_def newListenerWatcher_def
        newResolver_def Let_def)

text \<open>
  Witness of C9: of the two slashes of \<open>//svc\<close> one is stripped; an empty path falls
  back to the opaque part.
\<close>

theorem Build_endpoint_witness:
  "sanityChecksOnBootstrapConfig (fxTarget [] ''//svc'' []) fxNoCreds fxClient = Inr ''%s''
   \<and> (\<exists>r. Build fxDeps fxBuilder (fxTarget [] ''//svc'' []) fxNoCreds
             = (Inr r, [WatchListener ''/svc'']) \<and> ldsResourceName r = ''/svc'')
   \<and> (\<exists>r. Build fxDeps fxBuilder (fxTarget [] [] ''svc'') fxNoCreds
             = (Inr r, [WatchListener ''svc'']) \<and> ldsResourceName r = ''svc'')"
proof -
  have c: "(case newXDSClient fxBuilder of Some f \<Rightarrow> f | None \<Rightarrow> NewXDSClient fxDeps)
              = Inr fxClient"
    by (simp add: fxBuilder_def fxDeps_def)
  have s1: "sanityChecksOnBootstrapConfig (fxTarget [] ''//svc'' []) fxNoCreds fxClient = Inr ''%s''"
    by (simp add: sanityChecksOnBootstrapConfig_def fxTarget_def fxNoCreds_def fxClient_def
          fxBootstrap_def)
  have s2: "sanityChecksOnBootstrapConfig (fxTarget [] [] ''svc'') fxNoCreds fxClient = Inr ''%s''"
    by (simp add: sanityChecksOnBootstrapConfig_def fxTarget_def fxNoCreds_def fxClient_def
          fxBootstrap_def)
  have p: "PopulateResourceTemplate fxDeps = fxPopulate"
    by (simp add: fxDeps_def)
  show ?thesis
    using s1 Build_endpoint [OF c s1] Build_endpoint [OF c s2]
    by (auto simp: p fxTarget_def Let_def)
qed

end
